theory Spec2Isabelle
  imports Main "HOL-Library.Sublist" "HOL-Library.AList"
begin

section \<open>Strings and values of the language\<close>

text \<open>
  A JavaScript string is modelled by the HOL string that holds its UTF-8 encoding, so the
  ASCII literals of the source are the same literals here and a character outside ASCII is
  written byte by byte. The string operations the source calls are \<open>startsWith\<close>,
  \<open>slice\<close> (with a start index only), \<open>includes\<close> and \<open>trim\<close>. The first three are
  used with ASCII arguments only, where bytes and UTF-16 code units count alike.
\<close>

definition startsWith :: "string \<Rightarrow> string \<Rightarrow> bool" where
  "startsWith s p = prefix p s"

definition slice :: "string \<Rightarrow> nat \<Rightarrow> string" where
  "slice s n = drop n s"

fun includes_str :: "string \<Rightarrow> string \<Rightarrow> bool" where
  "includes_str [] sub = (sub = [])"
| "includes_str (c # cs) sub = (prefix sub (c # cs) \<or> includes_str cs sub)"

text \<open>
  \<open>String.prototype.trim\<close> strips white space and line terminators from both ends:
  TAB, LF, VT, FF, CR, SPACE, U+00A0, U+1680, U+2000 to U+200A, U+2028, U+2029, U+202F,
  U+205F, U+3000 and U+FEFF. \<open>ws_len s\<close> is the number of bytes of the white-space character
  that \<open>s\<close> starts with, and 0 when it starts with none.
\<close>

fun ws_len :: "string \<Rightarrow> nat" where
  "ws_len [] = 0"
| "ws_len (a # r) =
     (if a \<in> {CHR 0x09, CHR 0x0A, CHR 0x0B, CHR 0x0C, CHR 0x0D, CHR 0x20} then 1
      else case r of
        [] \<Rightarrow> 0
      | b # r' \<Rightarrow>
          if a = CHR 0xC2 \<and> b = CHR 0xA0 then 2
          else case r' of
            [] \<Rightarrow> 0
          | c # _ \<Rightarrow>
              if a = CHR 0xE1 \<and> b = CHR 0x9A \<and> c = CHR 0x80 then 3
              else if a = CHR 0xE2 \<and> b = CHR 0x80 \<and>
                (c \<in> {CHR 0x80, CHR 0x81, CHR 0x82, CHR 0x83, CHR 0x84, CHR 0x85, CHR 0x86,
                       CHR 0x87, CHR 0x88, CHR 0x89, CHR 0x8A, CHR 0xA8, CHR 0xA9, CHR 0xAF})
                then 3
              else if a = CHR 0xE2 \<and> b = CHR 0x81 \<and> c = CHR 0x9F then 3
              else if a = CHR 0xE3 \<and> b = CHR 0x80 \<and> c = CHR 0x80 then 3
              else if a = CHR 0xEF \<and> b = CHR 0xBB \<and> c = CHR 0xBF then 3
              else 0)"

text \<open>Seen from the end of the string, the same characters with their bytes reversed.\<close>

definition ws_len_rev :: "string \<Rightarrow> nat" where
  "ws_len_rev r =
     (if ws_len (take 1 r) = 1 then 1
      else if ws_len (rev (take 2 r)) = 2 then 2
      else if ws_len (rev (take 3 r)) = 3 then 3
      else 0)"

function trimStart :: "string \<Rightarrow> string" where
  "trimStart s = (if ws_len s = 0 then s else trimStart (drop (ws_len s) s))"
  by pat_completeness auto
termination
proof (relation "measure length")
  show "wf (measure length)" by simp
next
  fix s :: string
  assume "ws_len s \<noteq> 0"
  moreover have "ws_len s \<le> length s"
    by (cases s) (auto split: list.splits)
  ultimately show "(drop (ws_len s) s, s) \<in> measure length" by simp
qed

function trimStart_rev :: "string \<Rightarrow> string" where
  "trimStart_rev r = (if ws_len_rev r = 0 then r else trimStart_rev (drop (ws_len_rev r) r))"
  by pat_completeness auto
termination
proof (relation "measure length")
  show "wf (measure length)" by simp
next
  fix r :: string
  assume "ws_len_rev r \<noteq> 0"
  moreover have "ws_len_rev r \<le> length r"
  proof -
    have le: "ws_len s \<le> length s" for s
      by (cases s) (auto split: list.splits)
    have "ws_len (take 1 r) \<le> length (take 1 r)"
      and "ws_len (rev (take 2 r)) \<le> length (rev (take 2 r))"
      and "ws_len (rev (take 3 r)) \<le> length (rev (take 3 r))"
      by (rule le)+
    then show ?thesis by (auto simp: ws_len_rev_def)
  qed
  ultimately show "(drop (ws_len_rev r) r, r) \<in> measure length" by simp
qed

declare trimStart.simps [simp del] trimStart_rev.simps [simp del]

definition trimEnd :: "string \<Rightarrow> string" where
  "trimEnd s = rev (trimStart_rev (rev s))"

definition trim :: "string \<Rightarrow> string" where
  "trim s = trimEnd (trimStart s)"

text \<open>
  Decimal digits of a natural number, as a template literal prints the status of a
  response, an integer below 65536.
\<close>

definition digit :: "nat \<Rightarrow> char" where
  "digit d =
     (if d = 0 then CHR ''0'' else if d = 1 then CHR ''1'' else if d = 2 then CHR ''2''
      else if d = 3 then CHR ''3'' else if d = 4 then CHR ''4'' else if d = 5 then CHR ''5''
      else if d = 6 then CHR ''6'' else if d = 7 then CHR ''7'' else if d = 8 then CHR ''8''
      else CHR ''9'')"

fun digits :: "nat \<Rightarrow> string" where
  "digits n = (if n < 10 then [digit n] else digits (n div 10) @ [digit (n mod 10)])"

declare digits.simps [simp del]

text \<open>
  The values that \<open>JSON.parse\<close> produces. A number is kept by the two things that the
  wrapper can tell of it: whether it is zero, which makes it falsy, and the string that
  the language prints it as (\<open>7\<close>, \<open>0.5\<close>, \<open>1e+21\<close>); how a floating-point number
  prints is the platform's. An object is the list of its members in the order of the text;
  of two members with one key the later one counts. A value that may be \<open>undefined\<close> is a
  \<open>json option\<close>, with \<open>None\<close> for \<open>undefined\<close>.
\<close>

datatype json =
    JNull
  | JBool bool
  | JNum bool string
  | JStr string
  | JArr "json list"
  | JObj "(string \<times> json) list"

text \<open>
  The own property \<open>k\<close> of an object, and \<open>payload?.key\<close> for the keys \<open>message\<close> and
  \<open>error\<close>, which no prototype defines: on anything but an object with such a member
  the result is \<open>undefined\<close>.
\<close>

definition own_prop :: "(string \<times> json) list \<Rightarrow> string \<Rightarrow> json option" where
  "own_prop kvs k = map_of (rev kvs) k"

fun opt_prop :: "json \<Rightarrow> string \<Rightarrow> json option" where
  "opt_prop (JObj kvs) k = own_prop kvs k"
| "opt_prop _ k = None"

text \<open>Truthiness, as \<open>||\<close> and \<open>!\<close> and \<open>? :\<close> test it.\<close>

fun truthy :: "json \<Rightarrow> bool" where
  "truthy JNull = False"
| "truthy (JBool b) = b"
| "truthy (JNum zero printed) = (\<not> zero)"
| "truthy (JStr s) = (s \<noteq> [])"
| "truthy (JArr xs) = True"
| "truthy (JObj kvs) = True"

definition truthy_opt :: "json option \<Rightarrow> bool" where
  "truthy_opt v = (case v of None \<Rightarrow> False | Some j \<Rightarrow> truthy j)"

text \<open>\<open>a || b\<close> on values that may be undefined.\<close>

definition or_else :: "json option \<Rightarrow> json option \<Rightarrow> json option" where
  "or_else a b = (if truthy_opt a then a else b)"

text \<open>\<open>a || b\<close> where \<open>b\<close> is a value.\<close>

definition or_value :: "json option \<Rightarrow> json \<Rightarrow> json" where
  "or_value a b = (case a of None \<Rightarrow> b | Some j \<Rightarrow> if truthy j then j else b)"

fun intercalate :: "string \<Rightarrow> string list \<Rightarrow> string" where
  "intercalate sep [] = []"
| "intercalate sep [x] = x"
| "intercalate sep (x # y # ys) = x @ sep @ intercalate sep (y # ys)"

datatype error = Error string | TypeError string

fun message :: "error \<Rightarrow> string" where
  "message (Error m) = m"
| "message (TypeError m) = m"

text \<open>The results of a list of steps, or the error of the first step that throws.\<close>

fun collect :: "(error + string) list \<Rightarrow> error + string list" where
  "collect [] = Inr []"
| "collect (Inl e # rs) = Inl e"
| "collect (Inr x # rs) = (case collect rs of Inl e \<Rightarrow> Inl e | Inr xs \<Rightarrow> Inr (x # xs))"

text \<open>
  The string conversion that \<open>new Error(msg)\<close> applies to its argument; a thrown error
  is \<open>Inl\<close>. An array is joined with commas, a \<open>null\<close> among its elements counting as
  the empty string. An object is converted by its \<open>toString\<close>: the inherited one gives
  \<open>[object Object]\<close>; an object that has a member of its own with that key, which is
  never a function in a parsed value, and whose \<open>valueOf\<close> then returns no primitive
  either, makes the conversion throw a \<open>TypeError\<close>, whose wording is the engine's.
\<close>

fun toString :: "json \<Rightarrow> error + string" where
  "toString JNull = Inr ''null''"
| "toString (JBool b) = Inr (if b then ''true'' else ''false'')"
| "toString (JNum zero printed) = Inr printed"
| "toString (JStr s) = Inr s"
| "toString (JArr xs) =
     (case collect (map (\<lambda>x. if x = JNull then Inr [] else toString x) xs) of
        Inl e \<Rightarrow> Inl e
      | Inr parts \<Rightarrow> Inr (intercalate '','' parts))"
| "toString (JObj kvs) =
     (case own_prop kvs ''toString'' of
        None \<Rightarrow> Inr ''[object Object]''
      | Some v \<Rightarrow> Inl (TypeError ''Cannot convert object to primitive value''))"

text \<open>
  What \<open>throw new Error(msg)\<close> throws: the error whose message is the string form of
  \<open>msg\<close>, or the \<open>TypeError\<close> of the conversion.
\<close>

definition new_Error :: "json \<Rightarrow> error" where
  "new_Error msg = (case toString msg of Inl e \<Rightarrow> e | Inr m \<Rightarrow> Error m)"


section \<open>The HTTP wrapper\<close>

text \<open>
  What \<open>fetch\<close> is called with: the URL and the \<open>method\<close>, \<open>headers\<close> and \<open>body\<close> of its
  second argument. \<open>call_body\<close> is the value that \<open>JSON.stringify\<close> is applied to, and \<open>None\<close>
  when the body is \<open>undefined\<close>.
\<close>

record fetch_call =
  call_url :: string
  call_method :: string
  call_headers :: "(string \<times> string) list"
  call_body :: "json option"

text \<open>
  What the wrapper reads of a response: \<open>res.status\<close>, the \<open>content-type\<close> header
  (\<open>None\<close> when \<open>res.headers.get\<close> returns \<open>null\<close>), what \<open>res.text()\<close> resolves to, and what
  \<open>res.json()\<close> resolves to (\<open>None\<close> when it rejects, the body not being JSON). Parsing is
  the platform's. \<open>res.ok\<close> is true for a status from 200 to 299.
\<close>

record response =
  status :: nat
  content_type :: "string option"
  body_text :: string
  body_json :: "json option"

definition ok :: "response \<Rightarrow> bool" where
  "ok res = (200 \<le> status res \<and> status res \<le> 299)"

text \<open>A call of \<open>fetch\<close> either rejects with an error or resolves to a response.\<close>

datatype fetch_result = Rejected error | Responded response

type_synonym network = "fetch_call \<Rightarrow> fetch_result"

text \<open>
  A property of an object literal or of an options argument: not there, there with the
  value \<open>undefined\<close>, or there with a value. The spread \<open>{k: a, ...opts}\<close> keeps \<open>a\<close> where
  \<open>opts\<close> has no property \<open>k\<close> and takes the property of \<open>opts\<close> otherwise; the destructuring
  default \<open>{k = d}\<close> applies where the property is absent or \<open>undefined\<close>.
\<close>

datatype 'a field = Absent | Undefined | Value 'a

record options =
  opt_method :: "string field"
  opt_headers :: "(string \<times> string) list field"
  opt_body :: "json field"

definition no_options :: options where
  "no_options = \<lparr>opt_method = Absent, opt_headers = Absent, opt_body = Absent\<rparr>"

fun over :: "'a field \<Rightarrow> 'a field \<Rightarrow> 'a field" where
  "over a Absent = a"
| "over a b = b"

definition spread :: "options \<Rightarrow> options option \<Rightarrow> options" where
  "spread lit opts =
     (case opts of
        None \<Rightarrow> lit
      | Some v \<Rightarrow> \<lparr>opt_method = over (opt_method lit) (opt_method v),
                   opt_headers = over (opt_headers lit) (opt_headers v),
                   opt_body = over (opt_body lit) (opt_body v)\<rparr>)"

fun default_to :: "'a \<Rightarrow> 'a field \<Rightarrow> 'a" where
  "default_to d (Value v) = v"
| "default_to d _ = d"

text \<open>
  \<open>{'Content-Type': 'application/json', ...headers}\<close>: a header of the caller replaces the
  value of a property that is there and is added at the end otherwise.
\<close>

definition merge_headers :: "(string \<times> string) list \<Rightarrow> (string \<times> string) list" where
  "merge_headers hs =
     foldl (\<lambda>acc kv. AList.update (fst kv) (snd kv) acc) [(''Content-Type'', ''application/json'')] hs"

text \<open>\<open>body ? JSON.stringify(body) : undefined\<close>\<close>

fun sent_body :: "json field \<Rightarrow> json option" where
  "sent_body (Value j) = (if truthy j then Some j else None)"
| "sent_body _ = None"

text \<open>The arguments of the \<open>fetch\<close> in \<open>request\<close>; \<open>base\<close> is \<open>BASE_URL\<close>.\<close>

definition fetch_args :: "string \<Rightarrow> string \<Rightarrow> options \<Rightarrow> fetch_call" where
  "fetch_args base path opts =
     \<lparr>call_url = base @ path,
      call_method = default_to ''GET'' (opt_method opts),
      call_headers = merge_headers (default_to [] (opt_headers opts)),
      call_body = sent_body (opt_body opts)\<rparr>"

text \<open>\<open>res.headers.get('content-type')?.includes('application/json')\<close>\<close>

definition isJSON :: "response \<Rightarrow> bool" where
  "isJSON res =
     (case content_type res of None \<Rightarrow> False | Some ct \<Rightarrow> includes_str ct ''application/json'')"

text \<open>\<open>isJSON ? await res.json().catch(() => null) : null\<close>\<close>

definition payload :: "response \<Rightarrow> json" where
  "payload res =
     (if isJSON res then (case body_json res of None \<Rightarrow> JNull | Some j \<Rightarrow> j) else JNull)"

text \<open>\<open>payload?.message || payload?.error || `HTTP ${res.status}`\<close>\<close>

definition error_msg :: "response \<Rightarrow> json" where
  "error_msg res =
     or_value (or_else (opt_prop (payload res) ''message'') (opt_prop (payload res) ''error''))
       (JStr (''HTTP '' @ digits (status res)))"

text \<open>The part of \<open>request\<close> after the \<open>fetch\<close>: a thrown error is \<open>Inl\<close>.\<close>

definition receive :: "response \<Rightarrow> error + json" where
  "receive res = (if \<not> ok res then Inl (new_Error (error_msg res)) else Inr (payload res))"

text \<open>
  \<open>request\<close>, given what the network answers to each call: the call it makes and what its
  promise settles to.
\<close>

definition request :: "string \<Rightarrow> network \<Rightarrow> string \<Rightarrow> options \<Rightarrow> fetch_call \<times> (error + json)" where
  "request base net path opts =
     (let c = fetch_args base path opts
      in (c, case net c of Rejected e \<Rightarrow> Inl e | Responded res \<Rightarrow> receive res))"

text \<open>
  The four members of \<open>http\<close>. The positional \<open>body\<close> of \<open>post\<close> and \<open>put\<close> is a property
  of the literal even when it is \<open>undefined\<close>.
\<close>

definition positional :: "json option \<Rightarrow> json field" where
  "positional b = (case b of None \<Rightarrow> Undefined | Some j \<Rightarrow> Value j)"

definition http_get :: "string \<Rightarrow> network \<Rightarrow> string \<Rightarrow> options option \<Rightarrow> fetch_call \<times> (error + json)" where
  "http_get base net path opts =
     request base net path (spread (no_options\<lparr>opt_method := Value ''GET''\<rparr>) opts)"

definition http_post ::
  "string \<Rightarrow> network \<Rightarrow> string \<Rightarrow> json option \<Rightarrow> options option \<Rightarrow> fetch_call \<times> (error + json)" where
  "http_post base net path body opts =
     request base net path
       (spread (no_options\<lparr>opt_method := Value ''POST'', opt_body := positional body\<rparr>) opts)"

definition http_put ::
  "string \<Rightarrow> network \<Rightarrow> string \<Rightarrow> json option \<Rightarrow> options option \<Rightarrow> fetch_call \<times> (error + json)" where
  "http_put base net path body opts =
     request base net path
       (spread (no_options\<lparr>opt_method := Value ''PUT'', opt_body := positional body\<rparr>) opts)"

definition http_del :: "string \<Rightarrow> network \<Rightarrow> string \<Rightarrow> options option \<Rightarrow> fetch_call \<times> (error + json)" where
  "http_del base net path opts =
     request base net path (spread (no_options\<lparr>opt_method := Value ''DELETE''\<rparr>) opts)"


section \<open>The document\<close>

text \<open>
  The nodes under the list element of the board view. An element has a tag, its attributes
  in the order of the markup (the \<open>class\<close> attribute as its list of tokens), the \<open>checked\<close>
  property that an \<open>input\<close> carries, and its child nodes. \<open>Raw m\<close> stands for the nodes that
  the browser's parser makes of the markup \<open>m\<close> at this place; the model does not look
  into them. \<open>Comment d\<close> is a comment with the data \<open>d\<close>.
\<close>

datatype attr = Class "string list" | Attr string string

datatype node =
    Text string
  | Comment string
  | Raw string
  | Element string "attr list" bool "node list"

fun class_tokens :: "attr list \<Rightarrow> string list" where
  "class_tokens [] = []"
| "class_tokens (Class cs # as) = cs"
| "class_tokens (Attr k v # as) = class_tokens as"





text \<open>\<open>el.matches('.c')\<close> and \<open>el.checked\<close>, which is undefined on anything but an \<open>input\<close>.\<close>

fun has_class :: "string \<Rightarrow> node \<Rightarrow> bool" where
  "has_class c (Element tg as ch kids) = (c \<in> set (class_tokens as))"
| "has_class c n = False"



text \<open>
  A node below the list is named by its path: the index among the list's children, then
  the index among that child's children, and so on.
\<close>

type_synonym path = "nat list"

fun node_at :: "node list \<Rightarrow> path \<Rightarrow> node option" where
  "node_at ns [] = None"
| "node_at ns [i] = (if i < length ns then Some (ns ! i) else None)"
| "node_at ns (i # j # p) =
     (if i < length ns
      then (case ns ! i of Element tg as ch kids \<Rightarrow> node_at kids (j # p) | _ \<Rightarrow> None)
      else None)"



text \<open>
  \<open>el.closest('.c')\<close> within the list's children: the element itself if it has the class,
  else its parent, and so on upwards. \<open>None\<close> when no element up to a child of the list has
  the class; the search then goes on at the list element.
\<close>

function closest_below :: "string \<Rightarrow> node list \<Rightarrow> path \<Rightarrow> path option" where
  "closest_below c ns p =
     (if p = [] then None
      else if (case node_at ns p of None \<Rightarrow> False | Some n \<Rightarrow> has_class c n) then Some p
      else closest_below c ns (butlast p))"
  by pat_completeness auto
termination
  by (relation "measure (\<lambda>(c, ns, p). length p)") auto

declare closest_below.simps [simp del]

text \<open>
  The list element as the board's handlers see it: its child nodes, and the class tokens of
  the list element itself and of each of its ancestors, innermost first, which is what
  \<open>closest\<close> meets above the children. \<open>attached\<close> is false once one of them has been
  removed from the document; \<open>chain\<close> then ends at the removed element.
\<close>

record list_el =
  items :: "node list"
  chain :: "string list list"
  attached :: bool









text \<open>
  What \<open>document.getElementById\<close> and \<open>form.querySelector\<close> find in the page, for the
  identifiers the two initializers ask for; \<open>None\<close> (or \<open>False\<close>) is an element that is not
  there. Of an input the model keeps the \<open>value\<close>, of the message paragraph the
  \<open>textContent\<close>, of the registration form the \<open>disabled\<close> property of its first
  \<open>button[type="submit"]\<close> (\<open>Some None\<close>: the form has no such button). The elements are
  taken to be distinct and not nested in one another.
\<close>

record dom =
  registerForm :: "bool option option"
  username :: "string option"
  lastName :: "string option"
  age :: "string option"
  email :: "string option"
  password :: "string option"
  confirmPassword :: "string option"
  registerMsg :: "string option"
  todoForm :: bool
  newTodo :: "string option"
  todoList :: "list_el option"

text \<open>
  The listeners that the initializers add: the submit listener of the registration form,
  the submit listener of the add form, the click listener of the list. A listener holds
  the elements that its initializer found, which are the elements of the page for as long
  as the listener is there.
\<close>

datatype listener = RegisterSubmit | TodoSubmit | TodoClick

text \<open>
  The state of the page: \<open>location.hash\<close>, the markup last assigned to \<open>app.innerHTML\<close>,
  the elements it holds, the listeners on them, the calls of \<open>fetch\<close> made so far, the
  pending \<open>setTimeout\<close> callbacks (the delay and the hash that the callback assigns), and
  what was passed to \<open>console.error\<close>.
\<close>

record page =
  hash :: string
  app :: string
  document :: dom
  listeners :: "listener list"
  calls :: "fetch_call list"
  timers :: "(nat \<times> string) list"
  console :: "error list"

section \<open>The router\<close>

text \<open>
  \<open>parse\<close> is the browser's HTML parser, as far as the initializers can tell: the
  elements that they find once the markup has been assigned to \<open>app.innerHTML\<close>. The
  elements that were there before are gone, and their listeners with them.
\<close>

definition set_innerHTML :: "(string \<Rightarrow> dom) \<Rightarrow> string \<Rightarrow> page \<Rightarrow> page" where
  "set_innerHTML parse html pg = pg\<lparr>app := html, document := parse html, listeners := []\<rparr>"

definition initHome :: "page \<Rightarrow> page" where
  "initHome pg =
     (case registerForm (document pg) of
        None \<Rightarrow> pg
      | Some form \<Rightarrow> pg\<lparr>listeners := listeners pg @ [RegisterSubmit]\<rparr>)"

definition initBoard :: "page \<Rightarrow> page" where
  "initBoard pg =
     (if \<not> todoForm (document pg) then pg
      else if newTodo (document pg) = None then pg
      else if todoList (document pg) = None then pg
      else pg\<lparr>listeners := listeners pg @ [TodoSubmit, TodoClick]\<rparr>)"

text \<open>How a run of statements ends, and the page it leaves.\<close>

datatype outcome = Returned page | Threw error page

definition known :: "string list" where
  "known = [''home'', ''board'']"

text \<open>The first two statements of \<open>handleRoute\<close>: from \<open>location.hash\<close> to the view name.\<close>

definition route_of :: "string \<Rightarrow> string" where
  "route_of h =
     (let sliced = (if startsWith h ''#/'' then slice h 2 else []);
          path = (if sliced = [] then ''home'' else sliced)
      in if path \<in> set known then path else ''home'')"

text \<open>The address of a view, relative to the module.\<close>

definition viewURL :: "string \<Rightarrow> string" where
  "viewURL name = ''../views/'' @ name @ ''.html''"

definition view_call :: "string \<Rightarrow> fetch_call" where
  "view_call name =
     \<lparr>call_url = viewURL name, call_method = ''GET'', call_headers = [], call_body = None\<rparr>"

text \<open>\<open>loadView\<close>: the page when its promise settles, and the error if it rejects.\<close>

definition loadView :: "(string \<Rightarrow> dom) \<Rightarrow> network \<Rightarrow> string \<Rightarrow> page \<Rightarrow> error option \<times> page" where
  "loadView parse net name pg =
     (let pg1 = pg\<lparr>calls := calls pg @ [view_call name]\<rparr>
      in case net (view_call name) of
           Rejected e \<Rightarrow> (Some e, pg1)
         | Responded res \<Rightarrow>
             if \<not> ok res then (Some (Error (''Failed to load view: '' @ name)), pg1)
             else
               let pg2 = set_innerHTML parse (body_text res) pg1;
                   pg3 = (if name = ''home'' then initHome pg2 else pg2);
                   pg4 = (if name = ''board'' then initBoard pg3 else pg3)
               in (None, pg4))"

definition error_view :: string where
  \<open>error_view = ''<p style="color:#ffb4b4">Error loading the view.</p>''\<close>

definition handleRoute :: "(string \<Rightarrow> dom) \<Rightarrow> network \<Rightarrow> page \<Rightarrow> page" where
  "handleRoute parse net pg =
     (case loadView parse net (route_of (hash pg)) pg of
        (None, pg') \<Rightarrow> pg'
      | (Some err, pg') \<Rightarrow> set_innerHTML parse error_view (pg'\<lparr>console := console pg' @ [err]\<rparr>))"

definition initRouter :: "(string \<Rightarrow> dom) \<Rightarrow> network \<Rightarrow> page \<Rightarrow> page" where
  "initRouter parse net pg = handleRoute parse net pg"

section \<open>The home view\<close>

text \<open>
  \<open>registerUser\<close>: the object literal holds the six values; \<open>JSON.stringify\<close> leaves out a
  property whose value is \<open>undefined\<close>.
\<close>

definition registration :: "(string \<times> string option) list \<Rightarrow> json" where
  "registration vals =
     JObj (List.map_filter (\<lambda>kv. map_option (\<lambda>v. (fst kv, JStr v)) (snd kv)) vals)"

definition registerUser ::
  "string \<Rightarrow> network \<Rightarrow> (string \<times> string option) list \<Rightarrow> fetch_call \<times> (error + json)" where
  "registerUser base net vals = http_post base net ''/api/v1/users'' (Some (registration vals)) None"

definition set_msg :: "string \<Rightarrow> page \<Rightarrow> page" where
  "set_msg t pg = pg\<lparr>document := (document pg)\<lparr>registerMsg := Some t\<rparr>\<rparr>"

definition set_disabled :: "bool \<Rightarrow> page \<Rightarrow> page" where
  "set_disabled b pg = pg\<lparr>document := (document pg)\<lparr>registerForm := Some (Some b)\<rparr>\<rparr>"

text \<open>\<open>input?.value.trim()\<close> and \<open>!v\<close> on its result.\<close>

definition trimmed :: "string option \<Rightarrow> string option" where
  "trimmed v = map_option trim v"

definition blank :: "string option \<Rightarrow> bool" where
  "blank v = (case v of None \<Rightarrow> True | Some t \<Rightarrow> t = [])"

definition validation_msg :: string where
  "validation_msg = ''Por favor completa usuario y contrase'' @ [CHR 0xC3, CHR 0xB1] @ ''a.''"

text \<open>
  The submit listener of the registration form, run to its end with the network's answer.
  Assigning to a property of \<open>null\<close> throws a \<open>TypeError\<close>, whose wording is the engine's.
  \<open>e.preventDefault()\<close> keeps the browser from leaving the page and changes nothing here.
\<close>

definition onRegisterSubmit :: "string \<Rightarrow> network \<Rightarrow> page \<Rightarrow> outcome" where
  "onRegisterSubmit base net pg =
     (case registerMsg (document pg) of
        None \<Rightarrow> Threw (TypeError ''msg is null'') pg
      | Some old \<Rightarrow>
          let pg1 = set_msg [] pg;
              firstName = trimmed (username (document pg1));
              lastName = trimmed (lastName (document pg1));
              age = trimmed (age (document pg1));
              email = trimmed (email (document pg1));
              password = trimmed (password (document pg1));
              confirmPassword = trimmed (confirmPassword (document pg1))
          in if blank firstName \<or> blank password
             then Returned (set_msg validation_msg pg1)
             else
               (case registerForm (document pg1) of
                  Some (Some d) \<Rightarrow>
                    let pg2 = set_disabled True pg1;
                        (c, r) = registerUser base net
                          [(''firstName'', firstName), (''lastName'', lastName), (''age'', age),
                           (''email'', email), (''password'', password),
                           (''confirmPassword'', confirmPassword)];
                        pg3 = pg2\<lparr>calls := calls pg2 @ [c]\<rparr>;
                        pg4 = (case r of
                                 Inr data \<Rightarrow>
                                   (set_msg ''Registro exitoso'' pg3)
                                     \<lparr>timers := timers pg3 @ [(400, ''#/board'')]\<rparr>
                               | Inl err \<Rightarrow> set_msg (''No se pudo registrar: '' @ message err) pg3)
                    in Returned (set_disabled False pg4)
                | _ \<Rightarrow> Threw (TypeError ''form.querySelector(...) is null'') pg1))"

text \<open>The object literal that the listener passes to \<open>registerUser\<close>, from the page.\<close>

definition form_values :: "page \<Rightarrow> (string \<times> string option) list" where
  "form_values pg =
     [(''firstName'', trimmed (username (document pg))), (''lastName'', trimmed (lastName (document pg))),
      (''age'', trimmed (age (document pg))), (''email'', trimmed (email (document pg))),
      (''password'', trimmed (password (document pg))),
      (''confirmPassword'', trimmed (confirmPassword (document pg)))]"

text \<open>The callback given to \<open>setTimeout\<close>: \<open>location.hash = h\<close>.\<close>

definition timer_callback :: "string \<Rightarrow> page \<Rightarrow> page" where
  "timer_callback h pg = pg\<lparr>hash := h\<rparr>"

section \<open>The board view\<close>

definition nl :: string where
  "nl = [CHR 0x0A]"

text \<open>The template literal assigned to \<open>li.innerHTML\<close>, character by character.\<close>

definition li_template :: "string \<Rightarrow> string" where
  \<open>li_template title =
     nl @ ''      <label>'' @
     nl @ ''        <input type="checkbox" class="check">'' @
     nl @ ''        <span>'' @ title @ ''</span>'' @
     nl @ ''      </label>'' @
     nl @ ''      <button class="link remove" type="button">Eliminar</button>'' @
     nl @ ''    ''\<close>

text \<open>
  The child nodes that this markup gives the item depend on the title, which is not
  escaped and so reaches the parser as markup. Three kinds of title are told apart.

  A title is tame when it is made of text without \<open><\<close> and of elements \<open>b\<close>, \<open>i\<close>,
  \<open>em\<close> and \<open>strong\<close> that have no attributes, hold such text only and are closed. The
  parser keeps a tame title inside the span, and the item is the tree of the template: a
  label holding the checkbox and the span, and the button, with the white space between
  them. The span holds \<open>Raw title\<close>.
\<close>

definition inline_tags :: "string list" where
  "inline_tags = [''b'', ''i'', ''em'', ''strong'']"

text \<open>
  \<open>element_end n r\<close>: what follows in \<open>r\<close> after an element \<open>n\<close> that starts \<open>r\<close>, holds
  no \<open><\<close> and is closed; \<open>None\<close> when \<open>r\<close> does not start so.
\<close>

definition element_end :: "string \<Rightarrow> string \<Rightarrow> string option" where
  "element_end n r =
     (let start = ''<'' @ n @ ''>''; finish = ''</'' @ n @ ''>''
      in if prefix start r
         then (let rest = dropWhile (\<lambda>c. c \<noteq> CHR ''<'') (drop (length start) r)
               in if prefix finish rest then Some (drop (length finish) rest) else None)
         else None)"

definition inline_end :: "string \<Rightarrow> string option" where
  "inline_end r =
     (case List.map_filter (\<lambda>n. element_end n r) inline_tags of
        [] \<Rightarrow> None
      | rest # others \<Rightarrow> Some rest)"

function tame :: "string \<Rightarrow> bool" where
  "tame s =
     (case dropWhile (\<lambda>c. c \<noteq> CHR ''<'') s of
        [] \<Rightarrow> True
      | c # r \<Rightarrow> (case inline_end (c # r) of None \<Rightarrow> False | Some rest \<Rightarrow> tame rest))"
  by pat_completeness auto
termination
proof (relation "measure length")
  show "wf (measure length)" by simp
next
  fix s :: string and c r rest
  assume tail: "dropWhile (\<lambda>c. c \<noteq> CHR ''<'') s = c # r"
    and found: "inline_end (c # r) = Some rest"
  have shorter: "length rest' < length (c # r)" if "element_end n (c # r) = Some rest'" for n rest'
  proof -
    from that obtain k where "rest' = drop k (dropWhile (\<lambda>c. c \<noteq> CHR ''<'') (drop (length (''<'' @ n @ ''>'')) (c # r)))"
      by (auto simp: element_end_def Let_def split: if_splits)
    moreover have "length (dropWhile (\<lambda>c. c \<noteq> CHR ''<'') (drop (length (''<'' @ n @ ''>'')) (c # r)))
        \<le> length (drop (length (''<'' @ n @ ''>'')) (c # r))"
      by (rule length_dropWhile_le)
    ultimately show ?thesis by simp
  qed
  from found obtain n where "element_end n (c # r) = Some rest"
    by (auto simp: inline_end_def List.map_filter_def inline_tags_def split: list.splits if_splits option.splits)
  then have "length rest < length (c # r)" by (rule shorter)
  moreover have "length (dropWhile (\<lambda>c. c \<noteq> CHR ''<'') s) \<le> length s"
    by (rule length_dropWhile_le)
  ultimately show "(rest, s) \<in> measure length"
    using tail by simp
qed

declare tame.simps [simp del]

definition template_tree :: "node list \<Rightarrow> node list" where
  "template_tree content =
     [Text (nl @ ''      ''),
      Element ''label'' [] False
        [Text (nl @ ''        ''),
         Element ''input'' [Attr ''type'' ''checkbox'', Class [''check'']] False [],
         Text (nl @ ''        ''),
         Element ''span'' [] False content,
         Text (nl @ ''      '')],
      Text (nl @ ''      ''),
      Element ''button'' [Class [''link'', ''remove''], Attr ''type'' ''button''] False
        [Text ''Eliminar''],
      Text (nl @ ''    '')]"

text \<open>
  A title that is \<open><!--\<close> followed by letters, digits and spaces only opens a comment that
  nothing closes: the comment takes in the rest of the template, the tags of the span, the
  label and the button with it, and ends where the markup ends. The item then has the
  label with the checkbox and a span that holds this comment, and no button.
\<close>

definition after_title :: string where
  \<open>after_title =
     ''</span>'' @
     nl @ ''      </label>'' @
     nl @ ''      <button class="link remove" type="button">Eliminar</button>'' @
     nl @ ''    ''\<close>

definition word_char :: "char \<Rightarrow> bool" where
  "word_char c =
     (c \<in> set ''abcdefghijklmnopqrstuvwxyzABCDEFGHIJKLMNOPQRSTUVWXYZ0123456789 '')"

definition open_comment :: "string \<Rightarrow> string option" where
  "open_comment title =
     (if prefix ''<!--'' title \<and> list_all word_char (drop 4 title) then Some (drop 4 title)
      else None)"

definition comment_tree :: "string \<Rightarrow> node list" where
  "comment_tree r =
     [Text (nl @ ''      ''),
      Element ''label'' [] False
        [Text (nl @ ''        ''),
         Element ''input'' [Attr ''type'' ''checkbox'', Class [''check'']] False [],
         Text (nl @ ''        ''),
         Element ''span'' [] False [Comment (r @ after_title)]]]"

text \<open>
  For any other title the model does not say what the parser builds: the item holds the
  nodes of the whole markup, unparsed.
\<close>

definition li_children :: "string \<Rightarrow> node list" where
  "li_children title =
     (if tame title then template_tree [Raw title]
      else case open_comment title of
        Some r \<Rightarrow> comment_tree r
      | None \<Rightarrow> [Raw (li_template title)])"

text \<open>\<open>document.createElement('li')\<close>, \<open>li.className = 'todo'\<close> and the \<open>innerHTML\<close>.\<close>

definition new_li :: "string \<Rightarrow> node" where
  "new_li title = Element ''li'' [Class [''todo'']] False (li_children title)"

text \<open>The submit listener of the add form.\<close>

definition onTodoSubmit :: "page \<Rightarrow> page" where
  "onTodoSubmit pg =
     (case (newTodo (document pg), todoList (document pg)) of
        (Some v, Some l) \<Rightarrow>
          let title = trim v
          in if title = [] then pg
             else pg\<lparr>document := (document pg)\<lparr>todoList := Some (l\<lparr>items := new_li title # items l\<rparr>),
                                      newTodo := Some []\<rparr>\<rparr>
      | _ \<Rightarrow> pg)"



text \<open>
  Serialization, to compare the child nodes above with the template: text is escaped,
  \<open>Raw\<close> markup stands as it is, an \<open>input\<close> has no end tag.
\<close>

fun escape :: "string \<Rightarrow> string" where
  "escape [] = []"
| "escape (c # cs) =
     (if c = CHR ''&'' then ''&amp;'' @ escape cs
      else if c = CHR ''<'' then ''&lt;'' @ escape cs
      else if c = CHR ''>'' then ''&gt;'' @ escape cs
      else c # escape cs)"

fun attr_html :: "attr \<Rightarrow> string" where
  \<open>attr_html (Class cs) = '' class="'' @ intercalate '' '' cs @ ''"''\<close>
| \<open>attr_html (Attr k v) = '' '' @ k @ ''="'' @ v @ ''"''\<close>

fun outerHTML :: "node \<Rightarrow> string" where
  "outerHTML (Text t) = escape t"
| "outerHTML (Comment d) = ''<!--'' @ d @ ''-->''"
| "outerHTML (Raw m) = m"
| "outerHTML (Element tg as ch kids) =
     ''<'' @ tg @ concat (map attr_html as) @ ''>'' @
     (if tg = ''input'' then [] else concat (map outerHTML kids) @ ''</'' @ tg @ ''>'')"

definition innerHTML :: "node list \<Rightarrow> string" where
  "innerHTML kids = concat (map outerHTML kids)"

text \<open>
  The elements at and below some nodes, as far as the model knows them (none inside
  \<open>Raw\<close> markup), in the order of the document; \<open>querySelectorAll('.c')\<close> keeps
  those of class \<open>c\<close>.
\<close>

fun elements :: "node \<Rightarrow> node list" where
  "elements (Element tg as ch kids) = Element tg as ch kids # concat (map elements kids)"
| "elements n = []"

definition querySelectorAll :: "string \<Rightarrow> node list \<Rightarrow> node list" where
  "querySelectorAll c ns = filter (has_class c) (concat (map elements ns))"

text \<open>
  The text of a node. For \<open>Raw\<close> markup it is what is left when the tags are taken out: a
  tag starts at a \<open><\<close> that a letter follows, or a \<open>/\<close> and a letter, and ends at the
  next \<open>>\<close>. Character references, comments and quoted \<open>>\<close> are not modelled.
\<close>

definition letter :: "char \<Rightarrow> bool" where
  "letter c = (c \<in> set ''abcdefghijklmnopqrstuvwxyzABCDEFGHIJKLMNOPQRSTUVWXYZ'')"

fun tag_start :: "string \<Rightarrow> bool" where
  "tag_start [] = False"
| "tag_start [c] = letter c"
| "tag_start (c # d # cs) = (letter c \<or> (c = CHR ''/'' \<and> letter d))"

fun markup_text :: "bool \<Rightarrow> string \<Rightarrow> string" where
  "markup_text in_tag [] = []"
| "markup_text True (c # cs) = markup_text (c \<noteq> CHR ''>'') cs"
| "markup_text False (c # cs) =
     (if c = CHR ''<'' \<and> tag_start cs then markup_text True cs else c # markup_text False cs)"

fun textContent :: "node \<Rightarrow> string" where
  "textContent (Text t) = t"
| "textContent (Comment d) = []"
| "textContent (Raw m) = markup_text False m"
| "textContent (Element tg as ch kids) = concat (map textContent kids)"

section \<open>Concrete inputs\<close>

text \<open>Networks and responses on which the theorems below are evaluated.\<close>

definition offline :: network where
  "offline c = Rejected (TypeError ''Failed to fetch'')"

definition answering :: "response \<Rightarrow> network" where
  "answering res c = Responded res"

definition error_bad :: response where
  "error_bad =
     \<lparr>status = 500, content_type = Some ''application/json; charset=utf-8'', body_text = [],
      body_json = Some (JObj [(''error'', JStr ''bad'')])\<rparr>"

definition empty_message :: response where
  "empty_message =
     \<lparr>status = 500, content_type = Some ''application/json'', body_text = [],
      body_json = Some (JObj [(''message'', JStr []), (''error'', JStr ''bad'')])\<rparr>"

definition not_found :: response where
  "not_found =
     \<lparr>status = 404, content_type = Some ''text/html'', body_text = ''Not Found'',
      body_json = None\<rparr>"

definition created :: response where
  "created =
     \<lparr>status = 201, content_type = Some ''application/json'', body_text = [],
      body_json = Some (JObj [(''id'', JNum False ''7'')])\<rparr>"

definition malformed :: response where
  "malformed =
     \<lparr>status = 200, content_type = Some ''application/json'', body_text = ''{'',
      body_json = None\<rparr>"

definition email_taken :: response where
  "email_taken =
     \<lparr>status = 409, content_type = Some ''application/json'', body_text = [],
      body_json = Some (JObj [(''message'', JStr ''Email taken''), (''error'', JStr ''conflict'')])\<rparr>"

definition empty_object :: response where
  "empty_object =
     \<lparr>status = 503, content_type = Some ''application/json'', body_text = [],
      body_json = Some (JObj [])\<rparr>"

definition unprintable :: response where
  "unprintable =
     \<lparr>status = 500, content_type = Some ''application/json'', body_text = [],
      body_json = Some (JObj [(''message'', JObj [(''toString'', JStr ''x'')])])\<rparr>"

definition with_method :: "string \<Rightarrow> options" where
  "with_method m = no_options\<lparr>opt_method := Value m\<rparr>"

text \<open>Pages, views and a parser for them.\<close>

definition no_elements :: dom where
  "no_elements =
     \<lparr>registerForm = None, username = None, lastName = None, age = None, email = None,
      password = None, confirmPassword = None, registerMsg = None, todoForm = False,
      newTodo = None, todoList = None\<rparr>"

definition home_dom :: dom where
  "home_dom =
     no_elements\<lparr>registerForm := Some (Some False), username := Some '' Ana '',
       lastName := Some ''Ruiz'', age := Some ''30'', email := Some ''ana@example.org'',
       password := Some ''secret'', confirmPassword := Some ''secret'',
       registerMsg := Some []\<rparr>"

definition empty_list :: list_el where
  "empty_list = \<lparr>items = [], chain = [[], [''card''], []], attached = True\<rparr>"

definition board_dom :: dom where
  "board_dom = no_elements\<lparr>todoForm := True, newTodo := Some [], todoList := Some empty_list\<rparr>"

definition home_markup :: string where
  "home_markup = ''<form id=registerForm></form>''"

definition board_markup :: string where
  "board_markup = ''<form id=todoForm></form>''"

definition sample_parse :: "string \<Rightarrow> dom" where
  "sample_parse html =
     (if html = home_markup then home_dom
      else if html = board_markup then board_dom
      else no_elements)"

definition view_response :: "string \<Rightarrow> response" where
  "view_response html =
     \<lparr>status = 200, content_type = Some ''text/html'', body_text = html, body_json = None\<rparr>"

definition site :: network where
  "site c =
     (if call_url c = viewURL ''home'' then Responded (view_response home_markup)
      else if call_url c = viewURL ''board'' then Responded (view_response board_markup)
      else if call_url c = ''/api/v1/users'' then Responded created
      else Responded not_found)"

definition start :: page where
  "start =
     \<lparr>hash = [], app = [], document = no_elements, listeners = [], calls = [], timers = [],
      console = []\<rparr>"

definition home_page :: page where
  "home_page = start\<lparr>document := home_dom, listeners := [RegisterSubmit]\<rparr>"


text \<open>
  More pages: a registration form with a blank first name, a board whose input holds a
  title, and a list whose second item has had its checkbox ticked, which the browser does
  before it runs the click listeners.
\<close>

definition no_message_page :: page where
  "no_message_page = start\<lparr>document := home_dom\<lparr>registerMsg := None\<rparr>\<rparr>"

definition with_headers :: options where
  "with_headers = no_options\<lparr>opt_headers := Value [(''Accept'', ''application/json'')]\<rparr>"

definition blank_name_page :: page where
  "blank_name_page = home_page\<lparr>document := home_dom\<lparr>username := Some ''  ''\<rparr>\<rparr>"

definition board_page :: page where
  "board_page =
     start\<lparr>hash := ''#/board'', document := board_dom\<lparr>newTodo := Some ''  Buy milk ''\<rparr>,
           listeners := [TodoSubmit, TodoClick]\<rparr>"



section \<open>What the claims say, where the code does otherwise\<close>

text \<open>
  The error as the specification words it: made of the payload's \<open>message\<close> field if it is
  present, otherwise of its \<open>error\<close> field if that is present, otherwise of \<open>HTTP\<close> and
  the status. This is the statement to compare \<open>receive\<close> with, not a part of the program.
\<close>

definition stated_error :: "response \<Rightarrow> error" where
  "stated_error res =
     (case opt_prop (payload res) ''message'' of
        Some m \<Rightarrow> new_Error m
      | None \<Rightarrow>
          (case opt_prop (payload res) ''error'' of
             Some e \<Rightarrow> new_Error e
           | None \<Rightarrow> Error (''HTTP '' @ digits (status res))))"

section \<open>Properties of the HTTP wrapper\<close>

lemma request_responded:
  "net (fetch_args base path opts) = Responded res \<Longrightarrow>
   snd (request base net path opts) = receive res"
  by (simp add: request_def Let_def)

lemma request_call: "fst (request base net path opts) = fetch_args base path opts"
  by (simp add: request_def Let_def)

lemma payload_empty_message:
  "payload empty_message = JObj [(''message'', JStr []), (''error'', JStr ''bad'')]"
  by (simp add: payload_def isJSON_def empty_message_def)

lemma payload_error_bad: "payload error_bad = JObj [(''error'', JStr ''bad'')]"
  by (simp add: payload_def isJSON_def error_bad_def)

lemma digits_404: "digits 404 = ''404''"
  by (simp add: digits.simps digit_def)

lemma digits_503: "digits 503 = ''503''"
  by (simp add: digits.simps digit_def)

text \<open>
  C2, as stated, fails: the response \<open>{message: "", error: "bad"}\<close> with status 500 has a
  \<open>message\<close> field, the empty string, and the error thrown carries \<open>bad\<close>, since \<open>||\<close> passes
  over a field that is there but falsy.
\<close>

theorem request_failure_counterexample:
  "opt_prop (payload empty_message) ''message'' = Some (JStr [])
   \<and> snd (request [] (answering empty_message) ''/api/v1/users'' no_options) = Inl (Error ''bad'')
   \<and> snd (request [] (answering empty_message) ''/api/v1/users'' no_options)
       \<noteq> Inl (stated_error empty_message)"
proof -
  have "receive empty_message = Inl (Error ''bad'')"
    by (simp add: receive_def ok_def error_msg_def payload_empty_message or_value_def
        or_else_def truthy_opt_def own_prop_def new_Error_def) (simp add: empty_message_def)
  moreover have "stated_error empty_message = Error []"
    by (simp add: stated_error_def payload_empty_message own_prop_def new_Error_def)
  ultimately show ?thesis
    by (simp add: request_responded answering_def payload_empty_message own_prop_def)
qed

text \<open>
  C2, amended: when the response status is not in the success range, \<open>request\<close> throws
  what \<open>new Error(v)\<close> gives, where \<open>v\<close> is the payload's \<open>message\<close> field if that field
  is there and truthy, otherwise its \<open>error\<close> field if that one is there and truthy,
  otherwise the string \<open>HTTP\<close> and the status. For a string \<open>v\<close> this is the error whose
  message is exactly \<open>v\<close>; for a number it is the error whose message is the number as
  printed; for an object it is the error with the message \<open>[object Object]\<close>, unless the
  object has a \<open>toString\<close> member of its own, in which case the conversion throws and
  the wrapper throws that \<open>TypeError\<close>. So the JSON payload \<open>{error: "bad"}\<close> gives
  exactly \<open>bad\<close>, and a response that is not JSON gives \<open>HTTP\<close> and the status.
\<close>

theorem request_failure:
  assumes "net (fetch_args base path opts) = Responded res" and "\<not> ok res"
  shows "(opt_prop (payload res) ''message'' = Some m \<and> truthy m \<longrightarrow>
            snd (request base net path opts) = Inl (new_Error m))
       \<and> (\<not> truthy_opt (opt_prop (payload res) ''message'') \<and>
          opt_prop (payload res) ''error'' = Some e \<and> truthy e \<longrightarrow>
            snd (request base net path opts) = Inl (new_Error e))
       \<and> (\<not> truthy_opt (opt_prop (payload res) ''message'') \<and>
          \<not> truthy_opt (opt_prop (payload res) ''error'') \<longrightarrow>
            snd (request base net path opts) = Inl (Error (''HTTP '' @ digits (status res))))
       \<and> new_Error (JStr s) = Error s
       \<and> new_Error (JNum zero printed) = Error printed
       \<and> (own_prop kvs ''toString'' = None \<longrightarrow> new_Error (JObj kvs) = Error ''[object Object]'')
       \<and> (own_prop kvs ''toString'' = Some v \<longrightarrow>
            new_Error (JObj kvs) = TypeError ''Cannot convert object to primitive value'')
       \<and> (payload res = JObj [(''error'', JStr ''bad'')] \<longrightarrow>
            snd (request base net path opts) = Inl (Error ''bad''))
       \<and> (\<not> isJSON res \<longrightarrow>
            snd (request base net path opts) = Inl (Error (''HTTP '' @ digits (status res))))"
proof -
  have r: "snd (request base net path opts) = Inl (new_Error (error_msg res))"
    using assms by (simp add: request_responded receive_def)
  have nj: "\<not> isJSON res \<Longrightarrow> payload res = JNull"
    by (simp add: payload_def)
  have http: "new_Error (JStr (''HTTP '' @ digits (status res))) =
      Error (''HTTP '' @ digits (status res))"
    by (simp add: new_Error_def)
  have conv: "new_Error (JStr s) = Error s" "new_Error (JNum zero printed) = Error printed"
    "own_prop kvs ''toString'' = None \<Longrightarrow> new_Error (JObj kvs) = Error ''[object Object]''"
    "own_prop kvs ''toString'' = Some v \<Longrightarrow>
      new_Error (JObj kvs) = TypeError ''Cannot convert object to primitive value''"
    by (simp_all add: new_Error_def)
  have sel: "(opt_prop (payload res) ''message'' = Some m \<and> truthy m \<longrightarrow> error_msg res = m)
      \<and> (\<not> truthy_opt (opt_prop (payload res) ''message'') \<and>
          opt_prop (payload res) ''error'' = Some e \<and> truthy e \<longrightarrow> error_msg res = e)
      \<and> (\<not> truthy_opt (opt_prop (payload res) ''message'') \<and>
          \<not> truthy_opt (opt_prop (payload res) ''error'') \<longrightarrow>
            error_msg res = JStr (''HTTP '' @ digits (status res)))"
    by (auto simp: error_msg_def or_value_def or_else_def truthy_opt_def split: option.splits)
  have bad: "payload res = JObj [(''error'', JStr ''bad'')] \<Longrightarrow> error_msg res = JStr ''bad''"
    by (simp add: error_msg_def or_value_def or_else_def truthy_opt_def own_prop_def)
  have plain: "\<not> isJSON res \<Longrightarrow> error_msg res = JStr (''HTTP '' @ digits (status res))"
    by (simp add: error_msg_def or_value_def or_else_def truthy_opt_def nj)
  show ?thesis
    unfolding r using sel bad plain conv http
    by (auto simp: new_Error_def)
qed

theorem request_failure_witness:
  "snd (request [] (answering error_bad) ''/api/v1/users'' no_options) = Inl (Error ''bad'')
   \<and> snd (request [] (answering not_found) ''/api/v1/users'' no_options) = Inl (Error ''HTTP 404'')
   \<and> snd (request [] (answering email_taken) ''/api/v1/users'' no_options) =
       Inl (Error ''Email taken'')
   \<and> snd (request [] (answering empty_object) ''/api/v1/users'' no_options) =
       Inl (Error ''HTTP 503'')
   \<and> snd (request [] (answering unprintable) ''/api/v1/users'' no_options) =
       Inl (TypeError ''Cannot convert object to primitive value'')"
proof -
  have a: "answering error_bad (fetch_args [] ''/api/v1/users'' no_options) = Responded error_bad"
    by (simp add: answering_def)
  have b: "\<not> ok error_bad"
    by (simp add: ok_def error_bad_def)
  have c: "answering not_found (fetch_args [] ''/api/v1/users'' no_options) = Responded not_found"
    by (simp add: answering_def)
  have d: "\<not> ok not_found"
    by (simp add: ok_def not_found_def)
  have e: "\<not> isJSON not_found"
    by (simp add: isJSON_def not_found_def)
  have f: "status not_found = 404"
    by (simp add: not_found_def)
  have g: "answering email_taken (fetch_args [] ''/api/v1/users'' no_options) = Responded email_taken"
    by (simp add: answering_def)
  have h: "\<not> ok email_taken"
    by (simp add: ok_def email_taken_def)
  have i: "opt_prop (payload email_taken) ''message'' = Some (JStr ''Email taken'')
      \<and> truthy (JStr ''Email taken'')"
    by (simp add: payload_def isJSON_def email_taken_def own_prop_def)
  have j: "answering empty_object (fetch_args [] ''/api/v1/users'' no_options) = Responded empty_object"
    by (simp add: answering_def)
  have k: "\<not> ok empty_object"
    by (simp add: ok_def empty_object_def)
  have l: "\<not> truthy_opt (opt_prop (payload empty_object) ''message'')
      \<and> \<not> truthy_opt (opt_prop (payload empty_object) ''error'')"
    by (simp add: payload_def isJSON_def empty_object_def truthy_opt_def own_prop_def)
  have m: "status empty_object = 503"
    by (simp add: empty_object_def)
  have n: "answering unprintable (fetch_args [] ''/api/v1/users'' no_options) = Responded unprintable"
    by (simp add: answering_def)
  have o: "\<not> ok unprintable"
    by (simp add: ok_def unprintable_def)
  have p: "opt_prop (payload unprintable) ''message'' = Some (JObj [(''toString'', JStr ''x'')])
      \<and> truthy (JObj [(''toString'', JStr ''x'')])"
    by (simp add: payload_def isJSON_def unprintable_def own_prop_def)
  have q: "own_prop [(''toString'', JStr ''x'')] ''toString'' = Some (JStr ''x'')"
    by (simp add: own_prop_def)
  have first: "snd (request [] (answering error_bad) ''/api/v1/users'' no_options) = Inl (Error ''bad'')"
    using request_failure [where net = "answering error_bad" and res = error_bad, OF a b]
      payload_error_bad
    by simp
  have second: "snd (request [] (answering not_found) ''/api/v1/users'' no_options) =
      Inl (Error ''HTTP 404'')"
    using request_failure [where net = "answering not_found" and res = not_found, OF c d]
      e f digits_404
    by simp
  have third: "snd (request [] (answering email_taken) ''/api/v1/users'' no_options) =
      Inl (Error ''Email taken'')"
  proof -
    from request_failure [where net = "answering email_taken" and res = email_taken
        and m = "JStr ''Email taken''" and s = "''Email taken''", OF g h] i
    have "snd (request [] (answering email_taken) ''/api/v1/users'' no_options) =
        Inl (new_Error (JStr ''Email taken''))"
      and "new_Error (JStr ''Email taken'') = Error ''Email taken''"
      by blast+
    then show ?thesis by simp
  qed
  have fourth: "snd (request [] (answering empty_object) ''/api/v1/users'' no_options) =
      Inl (Error ''HTTP 503'')"
    using request_failure [where net = "answering empty_object" and res = empty_object, OF j k]
      l m digits_503
    by simp
  have fifth: "snd (request [] (answering unprintable) ''/api/v1/users'' no_options) =
      Inl (TypeError ''Cannot convert object to primitive value'')"
  proof -
    from request_failure [where net = "answering unprintable" and res = unprintable
        and m = "JObj [(''toString'', JStr ''x'')]" and kvs = "[(''toString'', JStr ''x'')]"
        and v = "JStr ''x''", OF n o] p q
    have "snd (request [] (answering unprintable) ''/api/v1/users'' no_options) =
        Inl (new_Error (JObj [(''toString'', JStr ''x'')]))"
      and "new_Error (JObj [(''toString'', JStr ''x'')]) =
        TypeError ''Cannot convert object to primitive value''"
      by blast+
    then show ?thesis by simp
  qed
  show ?thesis
    using first second third fourth fifth by simp
qed

text \<open>
  C3: when the response status is in the success range, \<open>request\<close> returns the parsed
  payload if the content type holds \<open>application/json\<close> and the body parses, and returns
  \<open>null\<close>, throwing nothing, if the content type does not hold it or the body does not parse.
\<close>

theorem request_success:
  assumes "net (fetch_args base path opts) = Responded res" and "ok res"
  shows "(isJSON res \<and> body_json res = Some j \<longrightarrow> snd (request base net path opts) = Inr j)
       \<and> (\<not> isJSON res \<or> body_json res = None \<longrightarrow>
            snd (request base net path opts) = Inr JNull)"
  using assms by (auto simp: request_responded receive_def payload_def)

theorem request_success_witness:
  "snd (request [] (answering created) ''/api/v1/users'' no_options) = Inr (JObj [(''id'', JNum False ''7'')])
   \<and> snd (request [] (answering malformed) ''/api/v1/users'' no_options) = Inr JNull"
proof -
  have a: "answering created (fetch_args [] ''/api/v1/users'' no_options) = Responded created"
    by (simp add: answering_def)
  have b: "ok created"
    by (simp add: ok_def created_def)
  have c: "isJSON created \<and> body_json created = Some (JObj [(''id'', JNum False ''7'')])"
    by (simp add: isJSON_def created_def)
  have d: "answering malformed (fetch_args [] ''/api/v1/users'' no_options) = Responded malformed"
    by (simp add: answering_def)
  have e: "ok malformed"
    by (simp add: ok_def malformed_def)
  have f: "body_json malformed = None"
    by (simp add: malformed_def)
  show ?thesis
    using request_success [where net = "answering created" and res = created, OF a b]
      request_success [where net = "answering malformed" and res = malformed, OF d e] c f
    by simp
qed

text \<open>
  C6, as stated, fails: \<open>http.get\<close> with the options \<open>{method: 'POST'}\<close> issues a POST, the
  options being spread after the method of the literal.
\<close>

theorem http_get_counterexample:
  "call_method (fst (http_get [] offline ''/api/v1/users'' (Some (with_method ''POST'')))) \<noteq> ''GET''"
  by (simp add: http_get_def request_call fetch_args_def spread_def with_method_def no_options_def)

text \<open>
  C6, amended: for every path, body and options argument that has no \<open>method\<close> property of
  its own, \<open>http.get\<close>, \<open>http.post\<close>, \<open>http.put\<close> and \<open>http.del\<close> issue the request with the
  methods GET, POST, PUT and DELETE, to the base address followed by the path; \<open>post\<close> and
  \<open>put\<close> take the body as their second argument, before the options. The theorem also
  gives the body of the call: the second argument, or the \<open>body\<close> property of the options
  where they have one, sent if it is truthy.
\<close>

theorem http_methods:
  assumes "case opts of None \<Rightarrow> True | Some v \<Rightarrow> opt_method v = Absent"
  shows "call_method (fst (http_get base net path opts)) = ''GET''
       \<and> call_method (fst (http_post base net path body opts)) = ''POST''
       \<and> call_method (fst (http_put base net path body opts)) = ''PUT''
       \<and> call_method (fst (http_del base net path opts)) = ''DELETE''
       \<and> call_url (fst (http_get base net path opts)) = base @ path
       \<and> call_url (fst (http_post base net path body opts)) = base @ path
       \<and> call_url (fst (http_put base net path body opts)) = base @ path
       \<and> call_url (fst (http_del base net path opts)) = base @ path
       \<and> ((case opts of None \<Rightarrow> True | Some v \<Rightarrow> opt_body v = Absent) \<longrightarrow>
            call_body (fst (http_post base net path body opts)) = sent_body (positional body)
          \<and> call_body (fst (http_put base net path body opts)) = sent_body (positional body))
       \<and> call_body (fst (http_post base net path body opts)) =
            sent_body (over (positional body) (case opts of None \<Rightarrow> Absent | Some v \<Rightarrow> opt_body v))
       \<and> call_body (fst (http_put base net path body opts)) =
            sent_body (over (positional body) (case opts of None \<Rightarrow> Absent | Some v \<Rightarrow> opt_body v))"
  using assms
  by (auto simp: http_get_def http_post_def http_put_def http_del_def request_call fetch_args_def
      spread_def no_options_def split: option.splits)

theorem http_methods_witness:
  "call_method (fst (http_get [] offline ''/api/v1/users'' None)) = ''GET''
   \<and> call_method (fst (http_post [] offline ''/api/v1/users'' (Some (JStr ''x'')) None)) = ''POST''
   \<and> call_method (fst (http_put [] offline ''/api/v1/users'' (Some (JStr ''x'')) None)) = ''PUT''
   \<and> call_method (fst (http_del [] offline ''/api/v1/users'' None)) = ''DELETE''
   \<and> call_body (fst (http_post [] offline ''/api/v1/users'' (Some (JStr ''x'')) None)) = Some (JStr ''x'')
   \<and> call_method (fst (http_get [] offline ''/api/v1/users'' (Some with_headers))) = ''GET''
   \<and> call_method (fst (http_post [] offline ''/api/v1/users'' (Some (JStr ''x'')) (Some with_headers))) =
       ''POST''
   \<and> call_method (fst (http_put [] offline ''/api/v1/users'' (Some (JStr ''x'')) (Some with_headers))) =
       ''PUT''
   \<and> call_method (fst (http_del [] offline ''/api/v1/users'' (Some with_headers))) = ''DELETE''
   \<and> call_body (fst (http_put [] offline ''/api/v1/users'' (Some (JStr ''x'')) (Some with_headers))) =
       Some (JStr ''x'')"
proof -
  have a: "case None :: options option of None \<Rightarrow> True | Some v \<Rightarrow> opt_method v = Absent"
    by simp
  have b: "case Some with_headers of None \<Rightarrow> True | Some v \<Rightarrow> opt_method v = Absent"
    by (simp add: with_headers_def no_options_def)
  have c: "case Some with_headers of None \<Rightarrow> True | Some v \<Rightarrow> opt_body v = Absent"
    by (simp add: with_headers_def no_options_def)
  have d: "sent_body (positional (Some (JStr ''x''))) = Some (JStr ''x'')"
    by (simp add: positional_def)
  have none: "call_method (fst (http_get [] offline ''/api/v1/users'' None)) = ''GET''
   \<and> call_method (fst (http_post [] offline ''/api/v1/users'' (Some (JStr ''x'')) None)) = ''POST''
   \<and> call_method (fst (http_put [] offline ''/api/v1/users'' (Some (JStr ''x'')) None)) = ''PUT''
   \<and> call_method (fst (http_del [] offline ''/api/v1/users'' None)) = ''DELETE''
   \<and> call_body (fst (http_post [] offline ''/api/v1/users'' (Some (JStr ''x'')) None)) = Some (JStr ''x'')"
    using http_methods [OF a, of "[]" offline "''/api/v1/users''" "Some (JStr ''x'')"] d
    by simp
  have some: "call_method (fst (http_get [] offline ''/api/v1/users'' (Some with_headers))) = ''GET''
   \<and> call_method (fst (http_post [] offline ''/api/v1/users'' (Some (JStr ''x'')) (Some with_headers))) =
       ''POST''
   \<and> call_method (fst (http_put [] offline ''/api/v1/users'' (Some (JStr ''x'')) (Some with_headers))) =
       ''PUT''
   \<and> call_method (fst (http_del [] offline ''/api/v1/users'' (Some with_headers))) = ''DELETE''
   \<and> call_body (fst (http_put [] offline ''/api/v1/users'' (Some (JStr ''x'')) (Some with_headers))) =
       Some (JStr ''x'')"
    using http_methods [OF b, of "[]" offline "''/api/v1/users''" "Some (JStr ''x'')"] c d
    by simp
  show ?thesis
    using none some by simp
qed

section \<open>Properties of the router and the initializers\<close>

lemma route_of_cases: "route_of h = (if h = ''#/board'' then ''board'' else ''home'')"
proof (cases "prefix ''#/'' h")
  case True
  then obtain r where h: "h = ''#/'' @ r"
    by (auto simp: prefix_def)
  show ?thesis
    by (auto simp: route_of_def startsWith_def slice_def known_def h Let_def)
next
  case False
  then have "h \<noteq> ''#/board''"
    by auto
  with False show ?thesis
    by (simp add: route_of_def startsWith_def known_def Let_def)
qed

lemma loadView_ok:
  assumes "net (view_call name) = Responded res" and "ok res"
  shows "loadView parse net name pg =
    (None, (if name = ''board'' then initBoard else id)
       ((if name = ''home'' then initHome else id)
         (set_innerHTML parse (body_text res) (pg\<lparr>calls := calls pg @ [view_call name]\<rparr>))))"
  using assms by (simp add: loadView_def Let_def)

lemma init_app: "app (initHome pg) = app pg" "app (initBoard pg) = app pg"
  by (simp_all add: initHome_def initBoard_def split: option.splits)

text \<open>When the view cannot be fetched, the container shows the error and nothing is initialized.\<close>

lemma handleRoute_failure:
  "net (view_call (route_of (hash pg))) = Responded res \<Longrightarrow> \<not> ok res \<Longrightarrow>
   handleRoute parse net pg =
     set_innerHTML parse error_view
       (pg\<lparr>calls := calls pg @ [view_call (route_of (hash pg))],
           console := console pg @ [Error (''Failed to load view: '' @ route_of (hash pg))]\<rparr>)"
  "net (view_call (route_of (hash pg))) = Rejected err \<Longrightarrow>
   handleRoute parse net pg =
     set_innerHTML parse error_view
       (pg\<lparr>calls := calls pg @ [view_call (route_of (hash pg))], console := console pg @ [err]\<rparr>)"
  by (simp_all add: handleRoute_def loadView_def Let_def)

lemma site_views:
  "site (view_call ''home'') = Responded (view_response home_markup)"
  "site (view_call ''board'') = Responded (view_response board_markup)"
  by (simp_all add: site_def view_call_def viewURL_def)

lemma view_response_ok: "ok (view_response html)" "body_text (view_response html) = html"
  by (simp_all add: ok_def view_response_def)

text \<open>
  C1: every fragment resolves to one view name: \<open>#/home\<close> to \<open>home\<close>, \<open>#/board\<close> to
  \<open>board\<close>, and any other fragment, the empty one and those that do not start with
  \<open>#/\<close> among them, to \<open>home\<close>. Once the markup of that view has been fetched (the
  response has a success status), the container holds this markup, and the page is the one
  that the view's own initializer, and no other, makes of it: \<open>initHome\<close> for \<open>home\<close>,
  \<open>initBoard\<close> for \<open>board\<close>.
\<close>

theorem route_and_view:
  "route_of ''#/home'' = ''home'' \<and> route_of ''#/board'' = ''board''
   \<and> (h \<noteq> ''#/board'' \<longrightarrow> route_of h = ''home'')
   \<and> route_of [] = ''home''
   \<and> (\<not> startsWith h ''#/'' \<longrightarrow> route_of h = ''home'')
   \<and> (net (view_call (route_of (hash pg))) = Responded res \<and> ok res \<longrightarrow>
        handleRoute parse net pg =
          (if route_of (hash pg) = ''board'' then initBoard else initHome)
            (set_innerHTML parse (body_text res)
              (pg\<lparr>calls := calls pg @ [view_call (route_of (hash pg))]\<rparr>))
        \<and> app (handleRoute parse net pg) = body_text res)"
proof -
  have run: "handleRoute parse net pg =
          (if route_of (hash pg) = ''board'' then initBoard else initHome)
            (set_innerHTML parse (body_text res)
              (pg\<lparr>calls := calls pg @ [view_call (route_of (hash pg))]\<rparr>))"
    if "net (view_call (route_of (hash pg))) = Responded res" "ok res"
    using that by (simp add: handleRoute_def loadView_ok route_of_cases)
  have shown: "app (handleRoute parse net pg) = body_text res"
    if "net (view_call (route_of (hash pg))) = Responded res" "ok res"
    using that by (simp add: run init_app set_innerHTML_def)
  have other: "\<not> startsWith h ''#/'' \<Longrightarrow> h \<noteq> ''#/board''"
    by (auto simp: startsWith_def)
  show ?thesis
    using run shown other by (simp add: route_of_cases)
qed

theorem route_and_view_witness:
  "route_of ''#/about'' = ''home''
   \<and> route_of ''board'' = ''home''
   \<and> handleRoute sample_parse site (start\<lparr>hash := ''#/board''\<rparr>) =
       start\<lparr>hash := ''#/board'', app := board_markup, document := board_dom,
             listeners := [TodoSubmit, TodoClick], calls := [view_call ''board'']\<rparr>
   \<and> handleRoute sample_parse site start =
       start\<lparr>app := home_markup, document := home_dom, listeners := [RegisterSubmit],
             calls := [view_call ''home'']\<rparr>"
proof -
  have a: "''#/about'' \<noteq> ''#/board''"
    by simp
  have b: "site (view_call (route_of (hash (start\<lparr>hash := ''#/board''\<rparr>)))) =
             Responded (view_response board_markup)
           \<and> ok (view_response board_markup)"
    by (simp add: route_of_cases site_views view_response_ok)
  have c: "site (view_call (route_of (hash start))) = Responded (view_response home_markup)
           \<and> ok (view_response home_markup)"
    by (simp add: route_of_cases site_views view_response_ok start_def)
  have d: "initBoard (set_innerHTML sample_parse board_markup
             (start\<lparr>hash := ''#/board'', calls := [view_call ''board'']\<rparr>)) =
           start\<lparr>hash := ''#/board'', app := board_markup, document := board_dom,
             listeners := [TodoSubmit, TodoClick], calls := [view_call ''board'']\<rparr>"
    by (simp add: set_innerHTML_def initBoard_def sample_parse_def board_markup_def
        home_markup_def board_dom_def no_elements_def start_def)
  have e: "initHome (set_innerHTML sample_parse home_markup (start\<lparr>calls := [view_call ''home'']\<rparr>)) =
           start\<lparr>app := home_markup, document := home_dom, listeners := [RegisterSubmit],
             calls := [view_call ''home'']\<rparr>"
    by (simp add: set_innerHTML_def initHome_def sample_parse_def home_dom_def no_elements_def
        start_def)
  have f: "hash start = [] \<and> calls start = []"
    by (simp add: start_def)
  have g: "\<not> startsWith ''board'' ''#/''"
    by (simp add: startsWith_def)
  have plain: "route_of ''board'' = ''home''"
    using route_and_view [of "''board''"] g by blast
  have about: "route_of ''#/about'' = ''home''"
    using route_and_view [of "''#/about''"] a by blast
  have views: "handleRoute sample_parse site (start\<lparr>hash := ''#/board''\<rparr>) =
       start\<lparr>hash := ''#/board'', app := board_markup, document := board_dom,
             listeners := [TodoSubmit, TodoClick], calls := [view_call ''board'']\<rparr>
   \<and> handleRoute sample_parse site start =
       start\<lparr>app := home_markup, document := home_dom, listeners := [RegisterSubmit],
             calls := [view_call ''home'']\<rparr>"
    using route_and_view [of "''#/about''" site "start\<lparr>hash := ''#/board''\<rparr>"
        "view_response board_markup" sample_parse]
      route_and_view [of "''#/about''" site start "view_response home_markup" sample_parse]
      a b c d e f
    by (simp add: route_of_cases view_response_ok)
  show ?thesis
    using plain about views by simp
qed

text \<open>
  What holds of the initializers: \<open>initHome\<close> does nothing when the form is missing,
  \<open>initBoard\<close> when the form, the input or the list is. On any markup, and when run
  twice, an initializer changes nothing but the listeners: not the elements, not the
  container. What it adds is one listener for \<open>initHome\<close>, as soon as the form is there,
  and two for \<open>initBoard\<close>, when all three of its elements are there.
\<close>

lemma initializers_facts:
  "(registerForm (document pg) = None \<longrightarrow> initHome pg = pg)
   \<and> (\<not> todoForm (document pg) \<or> newTodo (document pg) = None \<or> todoList (document pg) = None \<longrightarrow>
        initBoard pg = pg)
   \<and> initHome pg = pg\<lparr>listeners := listeners (initHome pg)\<rparr>
   \<and> initBoard pg = pg\<lparr>listeners := listeners (initBoard pg)\<rparr>
   \<and> initHome (initHome pg) = pg\<lparr>listeners := listeners (initHome (initHome pg))\<rparr>
   \<and> initBoard (initBoard pg) = pg\<lparr>listeners := listeners (initBoard (initBoard pg))\<rparr>
   \<and> (registerForm (document pg) = Some form \<longrightarrow>
        listeners (initHome pg) = listeners pg @ [RegisterSubmit])
   \<and> (todoForm (document pg) \<and> newTodo (document pg) = Some v \<and> todoList (document pg) = Some l \<longrightarrow>
        listeners (initBoard pg) = listeners pg @ [TodoSubmit, TodoClick])"
  by (auto simp: initHome_def initBoard_def split: option.splits)

text \<open>
  C7 says that an initializer is a no-op on markup that lacks any of its elements. The code
  keeps to this in \<open>initBoard\<close>, which returns when the form, the input or the list is
  missing, and not in \<open>initHome\<close>, which looks at the form only. On the markup of the home
  view without its message paragraph, \<open>initHome\<close> is no no-op: it adds the submit
  listener, and that listener throws on its first statement, the assignment to the missing
  paragraph. \<open>initBoard\<close> on the board view without its input adds nothing.
\<close>

theorem initHome_partial_markup:
  "registerForm (document no_message_page) = Some (Some False)
   \<and> registerMsg (document no_message_page) = None
   \<and> initHome no_message_page = no_message_page\<lparr>listeners := [RegisterSubmit]\<rparr>
   \<and> initHome no_message_page \<noteq> no_message_page
   \<and> onRegisterSubmit [] site (initHome no_message_page) =
       Threw (TypeError ''msg is null'') (initHome no_message_page)
   \<and> initBoard (start\<lparr>document := board_dom\<lparr>newTodo := None\<rparr>\<rparr>) =
       start\<lparr>document := board_dom\<lparr>newTodo := None\<rparr>\<rparr>"
proof -
  have a: "registerForm (document no_message_page) = Some (Some False)"
    "registerMsg (document no_message_page) = None"
    "listeners no_message_page = []"
    by (simp_all add: no_message_page_def home_dom_def start_def)
  have b: "initHome no_message_page = no_message_page\<lparr>listeners := [RegisterSubmit]\<rparr>"
    using a by (simp add: initHome_def)
  have d: "no_message_page\<lparr>listeners := [RegisterSubmit]\<rparr> \<noteq> no_message_page"
  proof
    assume "no_message_page\<lparr>listeners := [RegisterSubmit]\<rparr> = no_message_page"
    then have "listeners (no_message_page\<lparr>listeners := [RegisterSubmit]\<rparr>) = listeners no_message_page"
      by (rule arg_cong)
    with a show False
      by simp
  qed
  have e: "onRegisterSubmit [] site (no_message_page\<lparr>listeners := [RegisterSubmit]\<rparr>) =
       Threw (TypeError ''msg is null'') (no_message_page\<lparr>listeners := [RegisterSubmit]\<rparr>)"
    using a by (simp add: onRegisterSubmit_def)
  have f: "initBoard (start\<lparr>document := board_dom\<lparr>newTodo := None\<rparr>\<rparr>) =
       start\<lparr>document := board_dom\<lparr>newTodo := None\<rparr>\<rparr>"
    by (simp add: initBoard_def)
  show ?thesis
    using a b d e f by simp
qed

section \<open>Properties of the home view\<close>

lemma trim_examples:
  "trim ''  '' = []" "trim '' Ana '' = ''Ana''" "trim ''secret'' = ''secret''"
  "trim ''  Buy milk '' = ''Buy milk''" "trim ''<b>x</b>'' = ''<b>x</b>''"
  by code_simp+

lemma registerUser_result:
  "net (fst (registerUser base net vals)) = Responded res \<Longrightarrow>
   snd (registerUser base net vals) = receive res"
  by (simp add: registerUser_def http_post_def request_def Let_def)

lemma form_values_unfold:
  "[(''firstName'', trimmed (username (document pg))), (''lastName'', trimmed (lastName (document pg))),
    (''age'', trimmed (age (document pg))), (''email'', trimmed (email (document pg))),
    (''password'', trimmed (password (document pg))),
    (''confirmPassword'', trimmed (confirmPassword (document pg)))] = form_values pg"
  by (simp add: form_values_def)

text \<open>
  C4: on a page that has the message paragraph, a submission whose trimmed first name or
  trimmed password is blank (a missing input counts as blank) makes no call of \<open>fetch\<close>,
  whatever the network, puts the validation message into the paragraph, and leaves the
  submit button as it was, so enabled if it was enabled.
\<close>

theorem blank_submission:
  assumes "registerMsg (document pg) = Some old"
    and "blank (trimmed (username (document pg))) \<or> blank (trimmed (password (document pg)))"
  shows "onRegisterSubmit base net pg = Returned (set_msg validation_msg pg)
       \<and> calls (set_msg validation_msg pg) = calls pg
       \<and> registerMsg (document (set_msg validation_msg pg)) = Some validation_msg
       \<and> registerForm (document (set_msg validation_msg pg)) = registerForm (document pg)"
  using assms by (auto simp: onRegisterSubmit_def set_msg_def Let_def)

theorem blank_submission_witness:
  "onRegisterSubmit [] site blank_name_page = Returned (set_msg validation_msg blank_name_page)
   \<and> calls (set_msg validation_msg blank_name_page) = []
   \<and> registerForm (document (set_msg validation_msg blank_name_page)) = Some (Some False)"
proof -
  have a: "registerMsg (document blank_name_page) = Some []"
    by (simp add: blank_name_page_def home_dom_def)
  have b: "blank (trimmed (username (document blank_name_page)))
           \<or> blank (trimmed (password (document blank_name_page)))"
    by (simp add: blank_name_page_def blank_def trimmed_def trim_examples)
  have c: "calls blank_name_page = []"
    "registerForm (document blank_name_page) = Some (Some False)"
    by (simp_all add: blank_name_page_def home_page_def start_def home_dom_def)
  show ?thesis
    using blank_submission [OF a b, of "[]" site] c
    by simp
qed

text \<open>
  C5: on a page that has the message paragraph and the submit button, for a submission
  whose first name and password are not blank: if \<open>registerUser\<close> resolves, which it does
  on every response with a success status, the message becomes \<open>Registro exitoso\<close> and a
  timer of 400 ms is set whose callback makes the hash \<open>#/board\<close>, the fragment of
  the board view; if it rejects with an
  error, as it does with the error of \<open>request\<close> on every other response, the message
  becomes \<open>No se pudo registrar: \<close> followed by the error's message, and neither the
  hash nor the timers change. Either way the one call of \<open>fetch\<close> is recorded and the
  button ends enabled.
\<close>

theorem valid_submission:
  assumes "registerMsg (document pg) = Some old" and "registerForm (document pg) = Some (Some d)"
    and "\<not> blank (trimmed (username (document pg)))" and "\<not> blank (trimmed (password (document pg)))"
  shows "(snd (registerUser base net (form_values pg)) = Inr data \<longrightarrow>
            onRegisterSubmit base net pg =
              Returned (pg\<lparr>document := (document pg)\<lparr>registerMsg := Some ''Registro exitoso'',
                                            registerForm := Some (Some False)\<rparr>,
                           calls := calls pg @ [fst (registerUser base net (form_values pg))],
                           timers := timers pg @ [(400, ''#/board'')]\<rparr>))
       \<and> (snd (registerUser base net (form_values pg)) = Inl err \<longrightarrow>
            onRegisterSubmit base net pg =
              Returned (pg\<lparr>document := (document pg)\<lparr>registerMsg :=
                                              Some (''No se pudo registrar: '' @ message err),
                                            registerForm := Some (Some False)\<rparr>,
                           calls := calls pg @ [fst (registerUser base net (form_values pg))]\<rparr>))
       \<and> (net (fst (registerUser base net (form_values pg))) = Responded res \<and> ok res \<longrightarrow>
            snd (registerUser base net (form_values pg)) = Inr (payload res))
       \<and> (net (fst (registerUser base net (form_values pg))) = Responded res \<and> \<not> ok res \<longrightarrow>
            snd (registerUser base net (form_values pg)) = Inl (new_Error (error_msg res)))
       \<and> hash (timer_callback ''#/board'' pg') = ''#/board''
       \<and> route_of (hash (timer_callback ''#/board'' pg')) = ''board''"
proof -
  obtain c r where cr: "registerUser base net (form_values pg) = (c, r)"
    by (cases "registerUser base net (form_values pg)")
  have res: "snd (registerUser base net (form_values pg)) =
      (if ok res then Inr (payload res) else Inl (new_Error (error_msg res)))"
    if "net (fst (registerUser base net (form_values pg))) = Responded res"
    using that by (simp add: registerUser_result receive_def)
  show ?thesis
  proof (cases r)
    case (Inl e)
    with cr res assms show ?thesis
      by (auto simp: onRegisterSubmit_def Let_def set_msg_def set_disabled_def
          form_values_unfold timer_callback_def route_of_cases)
  next
    case (Inr j)
    with cr res assms show ?thesis
      by (auto simp: onRegisterSubmit_def Let_def set_msg_def set_disabled_def
          form_values_unfold timer_callback_def route_of_cases)
  qed
qed

theorem valid_submission_witness:
  "onRegisterSubmit [] site home_page =
     Returned (home_page\<lparr>document := home_dom\<lparr>registerMsg := Some ''Registro exitoso''\<rparr>,
                         calls := [fst (registerUser [] site (form_values home_page))],
                         timers := [(400, ''#/board'')]\<rparr>)
   \<and> onRegisterSubmit [] (answering error_bad) home_page =
     Returned (home_page\<lparr>document := home_dom\<lparr>registerMsg := Some ''No se pudo registrar: bad''\<rparr>,
                         calls := [fst (registerUser [] (answering error_bad) (form_values home_page))]\<rparr>)
   \<and> snd (registerUser [] (answering unprintable) (form_values home_page)) =
       Inl (TypeError ''Cannot convert object to primitive value'')"
proof -
  have a: "registerMsg (document home_page) = Some []"
    "registerForm (document home_page) = Some (Some False)"
    by (simp_all add: home_page_def home_dom_def)
  have b: "\<not> blank (trimmed (username (document home_page)))"
    "\<not> blank (trimmed (password (document home_page)))"
    by (simp_all add: home_page_def home_dom_def blank_def trimmed_def trim_examples)
  have c: "snd (registerUser [] site (form_values home_page)) = Inr (JObj [(''id'', JNum False ''7'')])"
    by (simp add: registerUser_def http_post_def request_def Let_def fetch_args_def site_def
        viewURL_def receive_def ok_def payload_def isJSON_def created_def)
  have d: "snd (registerUser [] (answering error_bad) (form_values home_page)) = Inl (Error ''bad'')"
    by (simp add: registerUser_def http_post_def request_def Let_def answering_def receive_def
        ok_def error_msg_def payload_error_bad or_value_def or_else_def truthy_opt_def
        own_prop_def new_Error_def)
      (simp add: error_bad_def)
  have e: "calls home_page = []" "timers home_page = []" "document home_page = home_dom"
    by (simp_all add: home_page_def start_def)
  have f: "home_dom\<lparr>registerMsg := m, registerForm := Some (Some False)\<rparr> =
      home_dom\<lparr>registerMsg := m\<rparr>" for m
    by (simp add: home_dom_def)
  have g: "answering unprintable (fst (registerUser [] (answering unprintable) (form_values home_page))) =
      Responded unprintable \<and> \<not> ok unprintable"
    by (simp add: answering_def ok_def unprintable_def)
  have h: "new_Error (error_msg unprintable) = TypeError ''Cannot convert object to primitive value''"
    by (simp add: error_msg_def payload_def isJSON_def unprintable_def or_value_def or_else_def
        truthy_opt_def own_prop_def new_Error_def)
  have first: "onRegisterSubmit [] site home_page =
     Returned (home_page\<lparr>document := home_dom\<lparr>registerMsg := Some ''Registro exitoso''\<rparr>,
                         calls := [fst (registerUser [] site (form_values home_page))],
                         timers := [(400, ''#/board'')]\<rparr>)
   \<and> onRegisterSubmit [] (answering error_bad) home_page =
     Returned (home_page\<lparr>document := home_dom\<lparr>registerMsg := Some ''No se pudo registrar: bad''\<rparr>,
                         calls := [fst (registerUser [] (answering error_bad) (form_values home_page))]\<rparr>)"
    using valid_submission [OF a b, of "[]" site "JObj [(''id'', JNum False ''7'')]"] c
      valid_submission [OF a b, of "[]" "answering error_bad" _ "Error ''bad''"] d e f
    by simp
  from valid_submission [OF a b, of "[]" "answering unprintable" _ _ unprintable] g
  have "snd (registerUser [] (answering unprintable) (form_values home_page)) =
      Inl (new_Error (error_msg unprintable))"
    by blast
  with first h show ?thesis
    by simp
qed

section \<open>Properties of the board view\<close>

lemma tame_examples:
  "tame ''Buy milk''" "tame ''Walk''" "tame ''<b>x</b>''" "\<not> tame ''<!--''"
  "open_comment ''<!--'' = Some []"
  by code_simp+

lemma li_children_html: "tame t \<Longrightarrow> innerHTML (li_children t) = li_template t"
  by (simp add: innerHTML_def li_children_def template_tree_def li_template_def nl_def)




text \<open>
  What holds of the add form on a page that has the input and the list: if the trimmed
  text is not empty, the list gets a new first item, an \<open>li\<close> of class \<open>todo\<close>, before
  the items it had, and the input is emptied; if it is empty, the page stays as it is. For
  a tame title the item is the tree of the template: a label with a checkbox that is not
  checked and a span that holds the title, and a button of class \<open>remove\<close>.
\<close>

lemma todo_add:
  assumes "newTodo (document pg) = Some v" and "todoList (document pg) = Some l"
  shows "(trim v \<noteq> [] \<longrightarrow>
            onTodoSubmit pg =
              pg\<lparr>document := (document pg)\<lparr>todoList := Some (l\<lparr>items := new_li (trim v) # items l\<rparr>),
                                   newTodo := Some []\<rparr>\<rparr>)
       \<and> (trim v = [] \<longrightarrow> onTodoSubmit pg = pg)
       \<and> new_li t = Element ''li'' [Class [''todo'']] False (li_children t)
       \<and> (tame t \<longrightarrow>
            innerHTML (li_children t) = li_template t
          \<and> node_at (li_children t) [1, 1] =
               Some (Element ''input'' [Attr ''type'' ''checkbox'', Class [''check'']] False [])
          \<and> node_at (li_children t) [1, 3] = Some (Element ''span'' [] False [Raw t])
          \<and> node_at (li_children t) [3] =
               Some (Element ''button'' [Class [''link'', ''remove''], Attr ''type'' ''button''] False
                       [Text ''Eliminar'']))"
proof -
  have parts: "node_at (li_children t) [1, 1] =
            Some (Element ''input'' [Attr ''type'' ''checkbox'', Class [''check'']] False [])"
    "node_at (li_children t) [1, 3] = Some (Element ''span'' [] False [Raw t])"
    "node_at (li_children t) [3] =
            Some (Element ''button'' [Class [''link'', ''remove''], Attr ''type'' ''button''] False
                    [Text ''Eliminar''])"
    if "tame t"
    using that by (simp_all add: li_children_def template_tree_def)
  show ?thesis
    using assms parts by (simp add: onTodoSubmit_def Let_def new_li_def li_children_html)
qed

text \<open>
  C8 says that every title that is not empty when trimmed gives an item with an unchecked
  checkbox, a span with the title and a remove control. The code writes the title into the
  markup without escaping it, so this fails for a title that holds markup. The title
  \<open><!--\<close> is accepted, being its own trimmed form and not empty; the item that the add
  form makes for it and puts first has the checkbox, but its span holds a comment and no
  title, and it has no element of class \<open>remove\<close> at all: the comment has taken the
  button in.
\<close>

theorem todo_add_comment_title:
  "trim ''<!--'' = ''<!--''
   \<and> onTodoSubmit (start\<lparr>document := board_dom\<lparr>newTodo := Some ''<!--''\<rparr>\<rparr>) =
       start\<lparr>document := board_dom\<lparr>todoList := Some (empty_list\<lparr>items := [new_li ''<!--'']\<rparr>),
                                    newTodo := Some []\<rparr>\<rparr>
   \<and> new_li ''<!--'' =
       Element ''li'' [Class [''todo'']] False
         [Text (nl @ ''      ''),
          Element ''label'' [] False
            [Text (nl @ ''        ''),
             Element ''input'' [Attr ''type'' ''checkbox'', Class [''check'']] False [],
             Text (nl @ ''        ''),
             Element ''span'' [] False [Comment after_title]]]
   \<and> querySelectorAll ''remove'' [new_li ''<!--''] = []
   \<and> querySelectorAll ''check'' [new_li ''<!--''] =
       [Element ''input'' [Attr ''type'' ''checkbox'', Class [''check'']] False []]
   \<and> textContent (Element ''span'' [] False [Comment after_title]) = []"
proof -
  have a: "trim ''<!--'' = ''<!--''"
    by code_simp
  have b: "new_li ''<!--'' =
       Element ''li'' [Class [''todo'']] False
         [Text (nl @ ''      ''),
          Element ''label'' [] False
            [Text (nl @ ''        ''),
             Element ''input'' [Attr ''type'' ''checkbox'', Class [''check'']] False [],
             Text (nl @ ''        ''),
             Element ''span'' [] False [Comment after_title]]]"
    by (simp add: new_li_def li_children_def tame_examples comment_tree_def)
  have c: "onTodoSubmit (start\<lparr>document := board_dom\<lparr>newTodo := Some ''<!--''\<rparr>\<rparr>) =
       start\<lparr>document := board_dom\<lparr>todoList := Some (empty_list\<lparr>items := [new_li ''<!--'']\<rparr>),
                                    newTodo := Some []\<rparr>\<rparr>"
    by (simp add: onTodoSubmit_def a Let_def board_dom_def empty_list_def)
  have d: "querySelectorAll ''remove'' [new_li ''<!--''] = []"
    "querySelectorAll ''check'' [new_li ''<!--''] =
       [Element ''input'' [Attr ''type'' ''checkbox'', Class [''check'']] False []]"
    by (simp_all add: b querySelectorAll_def)
  show ?thesis
    using a b c d by simp
qed

text \<open>
  The button and the checkbox of an item that the add form made for a tame title lie
  that way.
\<close>

lemma new_li_controls:
  assumes "i < length ns" and "ns ! i = new_li t" and "tame t"
  shows "closest_below ''todo'' ns [i, 3] = Some [i]"
    and "closest_below ''todo'' ns [i, 1, 1] = Some [i]"
    and "node_at ns [i, 3] =
          Some (Element ''button'' [Class [''link'', ''remove''], Attr ''type'' ''button''] False
                  [Text ''Eliminar''])"
    and "node_at ns [i, 1, 1] =
          Some (Element ''input'' [Attr ''type'' ''checkbox'', Class [''check'']] False [])"
proof -
  show "node_at ns [i, 3] =
          Some (Element ''button'' [Class [''link'', ''remove''], Attr ''type'' ''button''] False
                  [Text ''Eliminar''])"
    and "node_at ns [i, 1, 1] =
          Some (Element ''input'' [Attr ''type'' ''checkbox'', Class [''check'']] False [])"
    using assms by (simp_all add: new_li_def li_children_def template_tree_def)
  have top: "closest_below ''todo'' ns [i] = Some [i]"
    using assms by (subst closest_below.simps) (simp add: new_li_def)
  have mid: "closest_below ''todo'' ns [i, 1] = Some [i]"
    using assms top by (subst closest_below.simps) (simp add: new_li_def li_children_def template_tree_def)
  show "closest_below ''todo'' ns [i, 3] = Some [i]"
    using assms top by (subst closest_below.simps) (simp add: new_li_def li_children_def template_tree_def)
  show "closest_below ''todo'' ns [i, 1, 1] = Some [i]"
    using assms mid by (subst closest_below.simps) (simp add: new_li_def li_children_def template_tree_def)
qed




text \<open>
  C10: the title goes into the markup of the item as it is, with no escaping, so a title
  that holds markup is parsed as markup. The title \<open><b>x</b>\<close> is accepted, being its own
  trimmed form and not empty; the item made for it has this very markup inside its span,
  and the text of that span is \<open>x\<close>, not the title.
\<close>

theorem title_markup:
  "li_template t = take 75 (li_template []) @ t @ drop 75 (li_template [])
   \<and> trim ''<b>x</b>'' = ''<b>x</b>''
   \<and> todoList (document (onTodoSubmit (start\<lparr>document := board_dom\<lparr>newTodo := Some ''<b>x</b>''\<rparr>\<rparr>))) =
       Some (empty_list\<lparr>items := [new_li ''<b>x</b>'']\<rparr>)
   \<and> innerHTML (li_children ''<b>x</b>'') = li_template ''<b>x</b>''
   \<and> node_at (li_children ''<b>x</b>'') [1, 3] = Some (Element ''span'' [] False [Raw ''<b>x</b>''])
   \<and> textContent (Element ''span'' [] False [Raw ''<b>x</b>'']) = ''x''
   \<and> textContent (Element ''span'' [] False [Raw ''<b>x</b>'']) \<noteq> ''<b>x</b>''"
proof -
  have a: "li_template t = take 75 (li_template []) @ t @ drop 75 (li_template [])"
    by (simp add: li_template_def nl_def)
  have b: "todoList (document (onTodoSubmit (start\<lparr>document := board_dom\<lparr>newTodo := Some ''<b>x</b>''\<rparr>\<rparr>))) =
       Some (empty_list\<lparr>items := [new_li ''<b>x</b>'']\<rparr>)"
    by (simp add: onTodoSubmit_def board_dom_def empty_list_def trim_examples Let_def)
  have c: "node_at (li_children ''<b>x</b>'') [1, 3] = Some (Element ''span'' [] False [Raw ''<b>x</b>''])"
    by (simp add: li_children_def tame_examples template_tree_def)
  have d: "textContent (Element ''span'' [] False [Raw ''<b>x</b>'']) = ''x''"
    by (simp add: letter_def)
  show ?thesis
    using a b c d by (simp add: trim_examples li_children_html tame_examples)
qed

end
